theory Spec2Isabelle
  imports Main
begin

section \<open>The Kafka message bus of frontera (kafkabus.py)\<close>

text \<open>
  A shallow embedding of \<^verbatim>\<open>frontera/contrib/messagebus/kafkabus.py\<close>. Python objects
  are records, a method takes the object and returns the updated object, a raised
  exception is the \<open>Inl\<close> branch of a sum. The kafka-python client
  (\<^verbatim>\<open>KafkaConsumer\<close>, \<^verbatim>\<open>KafkaProducer\<close>) and the broker behind it are
  not part of the repository: they are modelled at their interface, with everything the
  broker decides (topic metadata, arriving records, the outcome of a commit) as data of
  the \<open>Cluster\<close> record.
\<close>

subsection \<open>Python values and exceptions\<close>

text \<open>
  Values of keyword arguments and of the dynamically typed \<^verbatim>\<open>type\<close> argument:
  \<^verbatim>\<open>None\<close>, a \<^verbatim>\<open>bool\<close>, an \<^verbatim>\<open>int\<close>, a \<^verbatim>\<open>str\<close>, the bytes-like
  \<^verbatim>\<open>bytes\<close>, \<^verbatim>\<open>bytearray\<close> and \<^verbatim>\<open>memoryview\<close> (of bytes, by their
  contents), and an instance of any other class, given by the truth value its
  \<^verbatim>\<open>__eq__\<close> answers when compared with a bytes object of given contents.
\<close>

datatype pyval =
    PyNone
  | PyBool bool
  | PyInt int
  | PyStr string
  | PyBytes string
  | PyByteArray string
  | PyMemoryView string
  | PyObject "string \<Rightarrow> bool"

text \<open>
  \<^verbatim>\<open>v == b\<close> for a bytes object \<^verbatim>\<open>b\<close>, under Python 3: bytes-like values compare
  by contents, a \<^verbatim>\<open>str\<close>, a number or \<^verbatim>\<open>None\<close> never equals a bytes object, and
  another object decides in its own \<^verbatim>\<open>__eq__\<close>.
\<close>

fun py_eq_bytes :: "pyval \<Rightarrow> string \<Rightarrow> bool" where
  "py_eq_bytes (PyBytes s) b = (s = b)"
| "py_eq_bytes (PyByteArray s) b = (s = b)"
| "py_eq_bytes (PyMemoryView s) b = (s = b)"
| "py_eq_bytes (PyObject eq) b = eq b"
| "py_eq_bytes PyNone b = False"
| "py_eq_bytes (PyBool x) b = False"
| "py_eq_bytes (PyInt i) b = False"
| "py_eq_bytes (PyStr s) b = False"

datatype error =
    KeyError int
  | AssertionError string
  | TypeError string
  | CommitFailedError

type_synonym kwargs = "(string \<times> pyval) list"

text \<open>
  \<^verbatim>\<open>d.update(e)\<close>: keys of \<open>e\<close> replace those of \<open>d\<close>. A dictionary is the
  list of its items; the order of the items is not that of Python and nothing reads it.
\<close>

definition dict_update :: "kwargs \<Rightarrow> kwargs \<Rightarrow> kwargs" where
  "dict_update d e = [kv \<leftarrow> d. fst kv \<notin> set (map fst e)] @ e"

text \<open>\<^verbatim>\<open>d.pop(k, default)\<close>: the value and the dictionary without the key.\<close>

definition dict_pop :: "kwargs \<Rightarrow> string \<Rightarrow> pyval \<Rightarrow> pyval \<times> kwargs" where
  "dict_pop d k dflt =
     (case map_of d k of
        None \<Rightarrow> (dflt, d)
      | Some v \<Rightarrow> (v, [kv \<leftarrow> d. fst kv \<noteq> k]))"

definition DEFAULT_BATCH_SIZE :: int where
  "DEFAULT_BATCH_SIZE = 1024 * 1024"

definition DEFAULT_BUFFER_MEMORY :: int where
  "DEFAULT_BUFFER_MEMORY = 130 * 1024 * 1024"

definition DEFAULT_MAX_REQUEST_SIZE :: int where
  "DEFAULT_MAX_REQUEST_SIZE = 4 * 1024 * 1024"

text \<open>\<^verbatim>\<open>os.path.join(a, b)\<close> for a relative second component.\<close>

definition os_path_join :: "string \<Rightarrow> string \<Rightarrow> string" where
  "os_path_join a b =
     (if a = [] then b
      else if last a = CHR ''/'' then a @ b
      else a @ ''/'' @ b)"

definition prepare_kafka_ssl_kwargs :: "string \<Rightarrow> kwargs" where
  "prepare_kafka_ssl_kwargs cert_path =
     [(''security_protocol'', PyStr ''SSL''),
      (''ssl_cafile'', PyStr (os_path_join cert_path ''ca-cert.pem'')),
      (''ssl_certfile'', PyStr (os_path_join cert_path ''client-cert.pem'')),
      (''ssl_keyfile'', PyStr (os_path_join cert_path ''client-key.pem''))]"

definition prepare_kafka_sasl_kwargs :: "string \<Rightarrow> string \<Rightarrow> kwargs" where
  "prepare_kafka_sasl_kwargs sasl_username sasl_password =
     [(''security_protocol'', PyStr ''SASL_SSL''),
      (''sasl_mechanism'', PyStr ''SCRAM-SHA-512''),
      (''sasl_plain_username'', PyStr sasl_username),
      (''sasl_plain_password'', PyStr sasl_password)]"

text \<open>\<^verbatim>\<open>str(n)\<close> of an integer, for the client id.\<close>

fun digits :: "nat \<Rightarrow> string" where
  "digits n =
     (if n < 10 then [char_of (48 + n)]
      else digits (n div 10) @ [char_of (48 + n mod 10)])"

declare digits.simps [simp del]

definition str_int :: "int \<Rightarrow> string" where
  "str_int i = (if i < 0 then CHR ''-'' # digits (nat (- i)) else digits (nat i))"

subsection \<open>The kafka-python client, at its interface\<close>

datatype TopicPartition = TopicPartition (tp_topic: string) (tp_partition: int)

datatype ConsumerRecord =
  ConsumerRecord (cr_topic: string) (cr_partition: int) (cr_offset: int) (cr_value: string)

text \<open>
  What the brokers decide. \<open>topic_partitions\<close> is the metadata behind
  \<^verbatim>\<open>partitions_for_topic\<close> (\<open>None\<close> for an unknown topic, else the partition
  ids in the order the returned set iterates). \<open>granted\<close> is the group coordinator:
  the partitions a member of the group receives under dynamic subscription.
  \<open>deliveries\<close> is what the iterator of a consumer of the group will do on each
  \<^verbatim>\<open>next\<close>: \<open>Some r\<close> yields the record \<open>r\<close>, \<open>None\<close> is a
  \<^verbatim>\<open>StopIteration\<close> after \<^verbatim>\<open>consumer_timeout_ms\<close> without a record; an
  exhausted list is a topic on which nothing arrives any more.
\<close>

record Cluster =
  topic_partitions :: "string \<Rightarrow> int list option"
  granted :: "string \<Rightarrow> TopicPartition \<Rightarrow> bool"
  deliveries :: "string \<Rightarrow> ConsumerRecord option list"
  start_offset :: "string \<Rightarrow> TopicPartition \<Rightarrow> int"
  commit_accepted :: "string \<Rightarrow> bool"

record KafkaConsumer =
  kc_cluster :: Cluster
  kc_bootstrap_servers :: string
  kc_group_id :: string
  kc_max_partition_fetch_bytes :: int
  kc_consumer_timeout_ms :: int
  kc_client_id :: string
  kc_request_timeout_ms :: int
  kc_heartbeat_interval_ms :: int
  kc_kwargs :: kwargs
  kc_subscription :: "string list"
  kc_assignment :: "TopicPartition list"
  kc_incoming :: "ConsumerRecord option list"
  kc_positions :: "TopicPartition \<Rightarrow> int"
  kc_committed :: "TopicPartition \<Rightarrow> int option"
  kc_closed :: bool

definition KafkaConsumer_new ::
  "Cluster \<Rightarrow> string \<Rightarrow> string \<Rightarrow> int \<Rightarrow> int \<Rightarrow> string \<Rightarrow> int \<Rightarrow> int \<Rightarrow> kwargs
     \<Rightarrow> KafkaConsumer" where
  "KafkaConsumer_new cluster bootstrap_servers group_id max_partition_fetch_bytes
       consumer_timeout_ms client_id request_timeout_ms heartbeat_interval_ms kwargs =
     \<lparr>kc_cluster = cluster,
      kc_bootstrap_servers = bootstrap_servers,
      kc_group_id = group_id,
      kc_max_partition_fetch_bytes = max_partition_fetch_bytes,
      kc_consumer_timeout_ms = consumer_timeout_ms,
      kc_client_id = client_id,
      kc_request_timeout_ms = request_timeout_ms,
      kc_heartbeat_interval_ms = heartbeat_interval_ms,
      kc_kwargs = kwargs,
      kc_subscription = [],
      kc_assignment = [],
      kc_incoming = deliveries cluster group_id,
      kc_positions = start_offset cluster group_id,
      kc_committed = (\<lambda>tp. None),
      kc_closed = False\<rparr>"

definition partitions_for_topic :: "KafkaConsumer \<Rightarrow> string \<Rightarrow> int list option" where
  "partitions_for_topic k t = topic_partitions (kc_cluster k) t"

definition assign :: "TopicPartition list \<Rightarrow> KafkaConsumer \<Rightarrow> KafkaConsumer" where
  "assign partitions k = k\<lparr>kc_assignment := partitions\<rparr>"

text \<open>
  \<^verbatim>\<open>subscribe\<close> records the topics and assigns nothing: the member receives its
  partitions when it joins the group, which happens in a poll.
\<close>

definition subscribe :: "string list \<Rightarrow> KafkaConsumer \<Rightarrow> KafkaConsumer" where
  "subscribe topics k = k\<lparr>kc_subscription := topics\<rparr>"

text \<open>
  Joining the group: a subscribed consumer is handed the partitions of its topics that
  the coordinator grants it; a consumer with a manual assignment keeps it.
\<close>

definition join_group :: "KafkaConsumer \<Rightarrow> KafkaConsumer" where
  "join_group k =
     (if kc_subscription k = [] then k
      else k\<lparr>kc_assignment :=
               [tp \<leftarrow> concat (map (\<lambda>t. case partitions_for_topic k t of
                                            None \<Rightarrow> []
                                          | Some pids \<Rightarrow> map (TopicPartition t) pids)
                                 (kc_subscription k)).
                  granted (kc_cluster k) (kc_group_id k) tp]\<rparr>)"

text \<open>
  \<^verbatim>\<open>next(consumer)\<close> polls: the consumer joins its group, then yields the record,
  or \<open>None\<close> for \<^verbatim>\<open>StopIteration\<close>. A yielded record moves the read position of
  its partition behind it.
\<close>

definition kafka_next :: "KafkaConsumer \<Rightarrow> ConsumerRecord option \<times> KafkaConsumer" where
  "kafka_next k0 =
     (let k = join_group k0
      in case kc_incoming k of
           [] \<Rightarrow> (None, k)
         | None # rest \<Rightarrow> (None, k\<lparr>kc_incoming := rest\<rparr>)
         | Some r # rest \<Rightarrow>
             (Some r,
              k\<lparr>kc_incoming := rest,
                kc_positions := (kc_positions k)
                  (TopicPartition (cr_topic r) (cr_partition r) := cr_offset r + 1)\<rparr>))"

text \<open>\<^verbatim>\<open>position(tp)\<close> asserts that the partition is assigned to this consumer.\<close>

definition position :: "KafkaConsumer \<Rightarrow> TopicPartition \<Rightarrow> error + int" where
  "position k tp =
     (if tp \<in> set (kc_assignment k) then Inr (kc_positions k tp)
      else Inl (AssertionError ''Partition is not assigned''))"

text \<open>
  \<^verbatim>\<open>commit()\<close> without arguments is synchronous: it stores the read position of
  every assigned partition, or raises when the coordinator refuses.
\<close>

definition commit :: "KafkaConsumer \<Rightarrow> error + KafkaConsumer" where
  "commit k =
     (if commit_accepted (kc_cluster k) (kc_group_id k)
      then Inr (k\<lparr>kc_committed :=
                    (\<lambda>tp. if tp \<in> set (kc_assignment k) then Some (kc_positions k tp)
                          else kc_committed k tp)\<rparr>)
      else Inl CommitFailedError)"

definition kafka_close :: "KafkaConsumer \<Rightarrow> KafkaConsumer" where
  "kafka_close k = k\<lparr>kc_closed := True\<rparr>"

subsection \<open>class Consumer\<close>

record Consumer =
  c_location :: string
  c_group :: string
  c_topic :: string
  c_consumer :: KafkaConsumer
  c_partitions :: "TopicPartition list"

text \<open>
  \<^verbatim>\<open>Consumer.__init__\<close>. The call \<^verbatim>\<open>topics()\<close> only makes the client fetch the
  metadata that \<open>Cluster\<close> holds. Without a partition id the list comprehension
  iterates \<^verbatim>\<open>partitions_for_topic\<close>, which is \<^verbatim>\<open>None\<close> for a topic the cluster
  does not know: a \<^verbatim>\<open>TypeError\<close>.
\<close>

definition Consumer_init ::
  "Cluster \<Rightarrow> string \<Rightarrow> bool \<Rightarrow> string \<Rightarrow> string \<Rightarrow> string \<Rightarrow> int option
     \<Rightarrow> bool \<Rightarrow> string \<Rightarrow> string \<Rightarrow> error + Consumer" where
  "Consumer_init cluster location enable_ssl cert_path topic grp partition_id
       enable_sasl sasl_username sasl_password =
     (let kwargs = (if enable_ssl then prepare_kafka_ssl_kwargs cert_path
                    else if enable_sasl then prepare_kafka_sasl_kwargs sasl_username sasl_password
                    else []);
          consumer = KafkaConsumer_new cluster location grp 10485760 100
                       (topic @ ''-'' @ (case partition_id of
                                            Some pid \<Rightarrow> str_int pid
                                          | None \<Rightarrow> ''all''))
                       (120 * 1000) 10000 kwargs
      in case partition_id of
           Some pid \<Rightarrow>
             (let partitions = [TopicPartition topic pid]
              in Inr \<lparr>c_location = location, c_group = grp, c_topic = topic,
                      c_consumer = assign partitions consumer,
                      c_partitions = partitions\<rparr>)
         | None \<Rightarrow>
             (case partitions_for_topic consumer topic of
                None \<Rightarrow> Inl (TypeError ''NoneType object is not iterable'')
              | Some pids \<Rightarrow>
                  Inr \<lparr>c_location = location, c_group = grp, c_topic = topic,
                       c_consumer = subscribe [topic] consumer,
                       c_partitions = map (TopicPartition topic) pids\<rparr>))"

text \<open>
  The loop of \<^verbatim>\<open>get_messages\<close>: while \<open>count > 0\<close>, take the next record of the
  iterator and append its value; a \<^verbatim>\<open>StopIteration\<close> leaves the loop.
\<close>

function get_messages_loop ::
  "KafkaConsumer \<Rightarrow> int \<Rightarrow> string list \<Rightarrow> string list \<times> KafkaConsumer" where
  "get_messages_loop k count result =
     (if count > 0 then
        (case kafka_next k of
           (Some m, k') \<Rightarrow> get_messages_loop k' (count - 1) (result @ [cr_value m])
         | (None, k') \<Rightarrow> (result, k'))
      else (result, k))"
  by pat_completeness auto
termination
  by (relation "measure (\<lambda>(k, count, result). nat count)") auto

declare get_messages_loop.simps [simp del]

text \<open>
  \<^verbatim>\<open>get_messages(self, timeout=0.1, count=1)\<close>: \<open>timeout\<close> is a parameter of the
  method, of whatever type the caller passes; the body never reads it.
\<close>

definition Consumer_get_messages ::
  "Consumer \<Rightarrow> 't \<Rightarrow> int \<Rightarrow> string list \<times> Consumer" where
  "Consumer_get_messages self timeout count =
     (case get_messages_loop (c_consumer self) count [] of
        (result, k) \<Rightarrow> (result, self\<lparr>c_consumer := k\<rparr>))"

fun get_offset_loop :: "KafkaConsumer \<Rightarrow> TopicPartition list \<Rightarrow> int \<Rightarrow> error + int" where
  "get_offset_loop k [] partition_id = Inl (KeyError partition_id)"
| "get_offset_loop k (tp # tps) partition_id =
     (if tp_partition tp = partition_id then position k tp
      else get_offset_loop k tps partition_id)"

definition Consumer_get_offset :: "Consumer \<Rightarrow> int \<Rightarrow> error + int" where
  "Consumer_get_offset self partition_id =
     get_offset_loop (c_consumer self) (c_partitions self) partition_id"

text \<open>
  \<^verbatim>\<open>close\<close> is two statements, \<^verbatim>\<open>commit()\<close> then \<^verbatim>\<open>close()\<close>, with no
  handler around them: an exception of the first leaves the method before the second.
  The result is the exception raised, if any, and the consumer as the call leaves it.
\<close>

definition Consumer_close :: "Consumer \<Rightarrow> error option \<times> Consumer" where
  "Consumer_close self =
     (case commit (c_consumer self) of
        Inl e \<Rightarrow> (Some e, self)
      | Inr k \<Rightarrow> (None, self\<lparr>c_consumer := kafka_close k\<rparr>))"

subsection \<open>Producers\<close>

text \<open>
  The partitioner classes live in \<^verbatim>\<open>frontera.contrib.backends.partitioners\<close>; the
  bus only constructs them with the configured partition count and hands them to the
  client.
\<close>

datatype Partitioner = FingerprintPartitioner int | Crc32NamePartitioner int

datatype ProducerRecord =
  ProducerRecord (pr_topic: string) (pr_key: "string option") (pr_value: string)

text \<open>
  A \<^verbatim>\<open>KafkaProducer\<close> is its constructor arguments and the sequence of records
  handed to its \<^verbatim>\<open>send\<close>, in call order; \<open>kp_flushed\<close> counts the records a
  \<^verbatim>\<open>flush\<close> has waited for.
\<close>

record KafkaProducer =
  kp_cluster :: Cluster
  kp_bootstrap_servers :: string
  kp_partitioner :: "Partitioner option"
  kp_retries :: int
  kp_compression_type :: "string option"
  kp_max_request_size :: pyval
  kp_kwargs :: kwargs
  kp_sent :: "ProducerRecord list"
  kp_flushed :: nat
  kp_closed :: bool

definition KafkaProducer_new ::
  "Cluster \<Rightarrow> string \<Rightarrow> Partitioner option \<Rightarrow> int \<Rightarrow> string option \<Rightarrow> pyval \<Rightarrow> kwargs
     \<Rightarrow> KafkaProducer" where
  "KafkaProducer_new cluster bootstrap_servers partitioner retries compression_type
       max_request_size kwargs =
     \<lparr>kp_cluster = cluster,
      kp_bootstrap_servers = bootstrap_servers,
      kp_partitioner = partitioner,
      kp_retries = retries,
      kp_compression_type = compression_type,
      kp_max_request_size = max_request_size,
      kp_kwargs = kwargs,
      kp_sent = [],
      kp_flushed = 0,
      kp_closed = False\<rparr>"

text \<open>\<^verbatim>\<open>producer.send(topic, key=key, value=value)\<close>; \<open>key\<close> defaults to \<^verbatim>\<open>None\<close>.\<close>

definition kafka_send ::
  "string \<Rightarrow> string option \<Rightarrow> string \<Rightarrow> KafkaProducer \<Rightarrow> KafkaProducer" where
  "kafka_send topic key v p = p\<lparr>kp_sent := kp_sent p @ [ProducerRecord topic key v]\<rparr>"

definition kafka_flush :: "KafkaProducer \<Rightarrow> KafkaProducer" where
  "kafka_flush p = p\<lparr>kp_flushed := length (kp_sent p)\<rparr>"

definition kafka_producer_close :: "KafkaProducer \<Rightarrow> KafkaProducer" where
  "kafka_producer_close p = (kafka_flush p)\<lparr>kp_closed := True\<rparr>"

record SimpleProducer =
  simple_location :: string
  simple_topic :: string
  simple_compression :: "string option"
  simple_producer :: KafkaProducer

definition SimpleProducer_init ::
  "Cluster \<Rightarrow> string \<Rightarrow> bool \<Rightarrow> string \<Rightarrow> string \<Rightarrow> string option
     \<Rightarrow> bool \<Rightarrow> string \<Rightarrow> string \<Rightarrow> kwargs \<Rightarrow> SimpleProducer" where
  "SimpleProducer_init cluster location enable_ssl cert_path topic compression
       enable_sasl sasl_username sasl_password kwargs0 =
     (let kwargs = (if enable_ssl then dict_update kwargs0 (prepare_kafka_ssl_kwargs cert_path)
                    else if enable_sasl
                      then dict_update kwargs0 (prepare_kafka_sasl_kwargs sasl_username sasl_password)
                    else kwargs0)
      in case dict_pop kwargs ''max_request_size'' (PyInt DEFAULT_MAX_REQUEST_SIZE) of
           (max_request_size, kwargs') \<Rightarrow>
             \<lparr>simple_location = location, simple_topic = topic,
              simple_compression = compression,
              simple_producer =
                KafkaProducer_new cluster location None 5 compression max_request_size kwargs'\<rparr>)"

text \<open>\<^verbatim>\<open>send(self, key, *messages)\<close>: the loop body passes no key to the client.\<close>

fun SimpleProducer_send :: "SimpleProducer \<Rightarrow> string \<Rightarrow> string list \<Rightarrow> SimpleProducer" where
  "SimpleProducer_send self key [] = self"
| "SimpleProducer_send self key (msg # messages) =
     SimpleProducer_send
       (self\<lparr>simple_producer := kafka_send (simple_topic self) None msg (simple_producer self)\<rparr>)
       key messages"

definition SimpleProducer_flush :: "SimpleProducer \<Rightarrow> SimpleProducer" where
  "SimpleProducer_flush self = self\<lparr>simple_producer := kafka_flush (simple_producer self)\<rparr>"

definition SimpleProducer_close :: "SimpleProducer \<Rightarrow> SimpleProducer" where
  "SimpleProducer_close self =
     self\<lparr>simple_producer := kafka_producer_close (simple_producer self)\<rparr>"

record KeyedProducer =
  keyed_location :: string
  keyed_topic_done :: string
  keyed_partitioner :: Partitioner
  keyed_compression :: "string option"
  keyed_producer :: KafkaProducer

definition KeyedProducer_init ::
  "Cluster \<Rightarrow> string \<Rightarrow> bool \<Rightarrow> string \<Rightarrow> string \<Rightarrow> Partitioner \<Rightarrow> string option
     \<Rightarrow> bool \<Rightarrow> string \<Rightarrow> string \<Rightarrow> kwargs \<Rightarrow> KeyedProducer" where
  "KeyedProducer_init cluster location enable_ssl cert_path topic_done partitioner compression
       enable_sasl sasl_username sasl_password kwargs0 =
     (case dict_pop kwargs0 ''max_request_size'' (PyInt DEFAULT_MAX_REQUEST_SIZE) of
        (max_request_size, kwargs1) \<Rightarrow>
          (let kwargs = (if enable_ssl
                           then dict_update kwargs1 (prepare_kafka_ssl_kwargs cert_path)
                         else if enable_sasl
                           then dict_update kwargs1
                                  (prepare_kafka_sasl_kwargs sasl_username sasl_password)
                         else kwargs1)
           in \<lparr>keyed_location = location, keyed_topic_done = topic_done,
                keyed_partitioner = partitioner, keyed_compression = compression,
                keyed_producer =
                  KafkaProducer_new cluster location (Some partitioner) 5 compression
                    max_request_size kwargs\<rparr>))"

fun KeyedProducer_send :: "KeyedProducer \<Rightarrow> string \<Rightarrow> string list \<Rightarrow> KeyedProducer" where
  "KeyedProducer_send self key [] = self"
| "KeyedProducer_send self key (msg # messages) =
     KeyedProducer_send
       (self\<lparr>keyed_producer :=
               kafka_send (keyed_topic_done self) (Some key) msg (keyed_producer self)\<rparr>)
       key messages"

definition KeyedProducer_flush :: "KeyedProducer \<Rightarrow> KeyedProducer" where
  "KeyedProducer_flush self = self\<lparr>keyed_producer := kafka_flush (keyed_producer self)\<rparr>"

text \<open>\<^verbatim>\<open>KeyedProducer.get_offset\<close> is \<^verbatim>\<open>pass\<close>: it returns \<^verbatim>\<open>None\<close>.\<close>

definition KeyedProducer_get_offset :: "KeyedProducer \<Rightarrow> int \<Rightarrow> pyval" where
  "KeyedProducer_get_offset self partition_id = PyNone"

subsection \<open>The message bus and its streams\<close>

text \<open>\<^verbatim>\<open>MessageBus.__init__\<close> copies the settings into these attributes.\<close>

record MessageBus =
  topic_todo :: string
  topic_done :: string
  topic_scoring :: string
  topic_stats :: string
  spiderlog_dbw_group :: string
  spiderlog_sw_group :: string
  scoringlog_dbw_group :: string
  statslog_reader_group :: string
  spider_feed_group :: string
  spider_partition_id :: "int option"
  max_next_requests :: int
  hostname_partitioning :: bool
  codec :: "string option"
  kafka_location :: string
  enable_ssl :: bool
  cert_path :: string
  enable_sasl :: bool
  sasl_username :: string
  sasl_password :: string
  spider_log_partitions :: int
  spider_feed_partitions :: int
  kafka_max_block_ms :: int

definition producer_kwargs :: "int \<Rightarrow> kwargs" where
  "producer_kwargs max_block_ms =
     [(''batch_size'', PyInt DEFAULT_BATCH_SIZE),
      (''buffer_memory'', PyInt DEFAULT_BUFFER_MEMORY),
      (''max_block_ms'', PyInt max_block_ms)]"

record SpiderLogStream =
  sl_location :: string
  sl_db_group :: string
  sl_sw_group :: string
  sl_topic :: string
  sl_codec :: "string option"
  sl_partitions :: int
  sl_enable_ssl :: bool
  sl_cert_path :: string
  sl_enable_sasl :: bool
  sl_sasl_username :: string
  sl_sasl_password :: string
  sl_kafka_max_block_ms :: int

definition SpiderLogStream_init :: "MessageBus \<Rightarrow> SpiderLogStream" where
  "SpiderLogStream_init messagebus =
     \<lparr>sl_location = kafka_location messagebus,
      sl_db_group = spiderlog_dbw_group messagebus,
      sl_sw_group = spiderlog_sw_group messagebus,
      sl_topic = topic_done messagebus,
      sl_codec = codec messagebus,
      sl_partitions = spider_log_partitions messagebus,
      sl_enable_ssl = enable_ssl messagebus,
      sl_cert_path = cert_path messagebus,
      sl_enable_sasl = enable_sasl messagebus,
      sl_sasl_username = sasl_username messagebus,
      sl_sasl_password = sasl_password messagebus,
      sl_kafka_max_block_ms = kafka_max_block_ms messagebus\<rparr>"

definition SpiderLogStream_producer :: "Cluster \<Rightarrow> SpiderLogStream \<Rightarrow> KeyedProducer" where
  "SpiderLogStream_producer cluster self =
     KeyedProducer_init cluster (sl_location self) (sl_enable_ssl self) (sl_cert_path self)
       (sl_topic self) (FingerprintPartitioner (sl_partitions self)) (sl_codec self)
       (sl_enable_sasl self) (sl_sasl_username self) (sl_sasl_password self)
       (producer_kwargs (sl_kafka_max_block_ms self))"

text \<open>
  The check after construction: \<^verbatim>\<open>assert len(partitions_for_topic(topic)) == n\<close>.
  \<^verbatim>\<open>len(None)\<close> is a \<^verbatim>\<open>TypeError\<close>.
\<close>

definition assert_partitions :: "Consumer \<Rightarrow> string \<Rightarrow> int \<Rightarrow> string \<Rightarrow> error + Consumer" where
  "assert_partitions c topic n msg =
     (case partitions_for_topic (c_consumer c) topic of
        None \<Rightarrow> Inl (TypeError ''object of type NoneType has no len()'')
      | Some pids \<Rightarrow>
          if int (length pids) = n then Inr c else Inl (AssertionError msg))"

definition SpiderLogStream_consumer ::
  "Cluster \<Rightarrow> SpiderLogStream \<Rightarrow> int option \<Rightarrow> pyval \<Rightarrow> error + Consumer" where
  "SpiderLogStream_consumer cluster self partition_id type =
     (let grp = (if py_eq_bytes type ''sw'' then sl_sw_group self else sl_db_group self)
      in case Consumer_init cluster (sl_location self) (sl_enable_ssl self) (sl_cert_path self)
                (sl_topic self) grp partition_id
                (sl_enable_sasl self) (sl_sasl_username self) (sl_sasl_password self) of
           Inl e \<Rightarrow> Inl e
         | Inr c \<Rightarrow> assert_partitions c (sl_topic self) (sl_partitions self) [])"

record SpiderFeedStream =
  sf_location :: string
  sf_general_group :: string
  sf_topic :: string
  sf_max_next_requests :: int
  sf_hostname_partitioning :: bool
  sf_enable_ssl :: bool
  sf_cert_path :: string
  sf_enable_sasl :: bool
  sf_sasl_username :: string
  sf_sasl_password :: string
  sf_offset_fetcher :: kwargs
  sf_codec :: "string option"
  sf_partitions :: int
  sf_kafka_max_block_ms :: int

text \<open>
  \<^verbatim>\<open>OffsetsFetcherAsync\<close> is constructed here from keyword arguments; the stream
  keeps the handle, modelled by these arguments.
\<close>

definition SpiderFeedStream_init :: "MessageBus \<Rightarrow> SpiderFeedStream" where
  "SpiderFeedStream_init messagebus =
     (let kwargs0 = [(''bootstrap_servers'', PyStr (kafka_location messagebus)),
                     (''topic'', PyStr (topic_todo messagebus)),
                     (''group_id'', PyStr (spider_feed_group messagebus))];
          kwargs = (if enable_ssl messagebus
                      then dict_update kwargs0 (prepare_kafka_ssl_kwargs (cert_path messagebus))
                    else if enable_sasl messagebus
                      then dict_update kwargs0
                             (prepare_kafka_sasl_kwargs (sasl_username messagebus)
                                (sasl_password messagebus))
                    else kwargs0)
      in \<lparr>sf_location = kafka_location messagebus,
           sf_general_group = spider_feed_group messagebus,
           sf_topic = topic_todo messagebus,
           sf_max_next_requests = max_next_requests messagebus,
           sf_hostname_partitioning = hostname_partitioning messagebus,
           sf_enable_ssl = enable_ssl messagebus,
           sf_cert_path = cert_path messagebus,
           sf_enable_sasl = enable_sasl messagebus,
           sf_sasl_username = sasl_username messagebus,
           sf_sasl_password = sasl_password messagebus,
           sf_offset_fetcher = kwargs,
           sf_codec = codec messagebus,
           sf_partitions = spider_feed_partitions messagebus,
           sf_kafka_max_block_ms = kafka_max_block_ms messagebus\<rparr>)"

definition SpiderFeedStream_consumer ::
  "Cluster \<Rightarrow> SpiderFeedStream \<Rightarrow> int option \<Rightarrow> error + Consumer" where
  "SpiderFeedStream_consumer cluster self partition_id =
     (case Consumer_init cluster (sf_location self) (sf_enable_ssl self) (sf_cert_path self)
             (sf_topic self) (sf_general_group self) partition_id
             (sf_enable_sasl self) (sf_sasl_username self) (sf_sasl_password self) of
        Inl e \<Rightarrow> Inl e
      | Inr c \<Rightarrow>
          assert_partitions c (sf_topic self) (sf_partitions self)
            ''Number of kafka topic partitions doesn't match value in config for spider feed'')"

text \<open>
  \<^verbatim>\<open>available_partitions\<close> iterates the dictionary that the offset fetcher's
  \<^verbatim>\<open>get()\<close> returns (partition to lag), here the list of its items in iteration
  order, and appends each partition whose lag is below the threshold.
\<close>

fun available_partitions_loop :: "int \<Rightarrow> (int \<times> int) list \<Rightarrow> int list \<Rightarrow> int list" where
  "available_partitions_loop threshold [] partitions = partitions"
| "available_partitions_loop threshold ((pid, lag) # items) partitions =
     available_partitions_loop threshold items
       (if lag < threshold then partitions @ [pid] else partitions)"

definition SpiderFeedStream_available_partitions ::
  "SpiderFeedStream \<Rightarrow> (int \<times> int) list \<Rightarrow> int list" where
  "SpiderFeedStream_available_partitions self lags =
     available_partitions_loop (sf_max_next_requests self) lags []"

definition SpiderFeedStream_producer :: "Cluster \<Rightarrow> SpiderFeedStream \<Rightarrow> KeyedProducer" where
  "SpiderFeedStream_producer cluster self =
     (let partitioner = (if sf_hostname_partitioning self
                           then Crc32NamePartitioner (sf_partitions self)
                         else FingerprintPartitioner (sf_partitions self))
      in KeyedProducer_init cluster (sf_location self) (sf_enable_ssl self) (sf_cert_path self)
           (sf_topic self) partitioner (sf_codec self)
           (sf_enable_sasl self) (sf_sasl_username self) (sf_sasl_password self)
           (producer_kwargs (sf_kafka_max_block_ms self)))"

record ScoringLogStream =
  sc_topic :: string
  sc_group :: string
  sc_location :: string
  sc_codec :: "string option"
  sc_cert_path :: string
  sc_enable_ssl :: bool
  sc_enable_sasl :: bool
  sc_sasl_username :: string
  sc_sasl_password :: string
  sc_kafka_max_block_ms :: int

definition ScoringLogStream_init :: "MessageBus \<Rightarrow> ScoringLogStream" where
  "ScoringLogStream_init messagebus =
     \<lparr>sc_topic = topic_scoring messagebus,
      sc_group = scoringlog_dbw_group messagebus,
      sc_location = kafka_location messagebus,
      sc_codec = codec messagebus,
      sc_cert_path = cert_path messagebus,
      sc_enable_ssl = enable_ssl messagebus,
      sc_enable_sasl = enable_sasl messagebus,
      sc_sasl_username = sasl_username messagebus,
      sc_sasl_password = sasl_password messagebus,
      sc_kafka_max_block_ms = kafka_max_block_ms messagebus\<rparr>"

definition ScoringLogStream_consumer :: "Cluster \<Rightarrow> ScoringLogStream \<Rightarrow> error + Consumer" where
  "ScoringLogStream_consumer cluster self =
     Consumer_init cluster (sc_location self) (sc_enable_ssl self) (sc_cert_path self)
       (sc_topic self) (sc_group self) None
       (sc_enable_sasl self) (sc_sasl_username self) (sc_sasl_password self)"

definition ScoringLogStream_producer :: "Cluster \<Rightarrow> ScoringLogStream \<Rightarrow> SimpleProducer" where
  "ScoringLogStream_producer cluster self =
     SimpleProducer_init cluster (sc_location self) (sc_enable_ssl self) (sc_cert_path self)
       (sc_topic self) (sc_codec self)
       (sc_enable_sasl self) (sc_sasl_username self) (sc_sasl_password self)
       (producer_kwargs (sc_kafka_max_block_ms self))"

text \<open>
  \<^verbatim>\<open>class StatsLogStream(ScoringLogStream, BaseStatsLogStream)\<close>: the constructor
  runs the parent's and then overwrites two attributes; \<^verbatim>\<open>consumer\<close> and
  \<^verbatim>\<open>producer\<close> are not overridden, so a call resolves to the parent's method on the
  subclass instance.
\<close>

definition StatsLogStream_init :: "MessageBus \<Rightarrow> ScoringLogStream" where
  "StatsLogStream_init messagebus =
     (ScoringLogStream_init messagebus)
       \<lparr>sc_topic := topic_stats messagebus,
        sc_group := statslog_reader_group messagebus\<rparr>"

definition StatsLogStream_consumer :: "Cluster \<Rightarrow> ScoringLogStream \<Rightarrow> error + Consumer" where
  "StatsLogStream_consumer cluster self = ScoringLogStream_consumer cluster self"

definition StatsLogStream_producer :: "Cluster \<Rightarrow> ScoringLogStream \<Rightarrow> SimpleProducer" where
  "StatsLogStream_producer cluster self = ScoringLogStream_producer cluster self"

definition spider_log :: "MessageBus \<Rightarrow> SpiderLogStream" where
  "spider_log self = SpiderLogStream_init self"

definition spider_feed :: "MessageBus \<Rightarrow> SpiderFeedStream" where
  "spider_feed self = SpiderFeedStream_init self"

definition scoring_log :: "MessageBus \<Rightarrow> ScoringLogStream" where
  "scoring_log self = ScoringLogStream_init self"

definition stats_log :: "MessageBus \<Rightarrow> ScoringLogStream" where
  "stats_log self = StatsLogStream_init self"

subsection \<open>The claimed shape of the stats log\<close>

text \<open>
  The stats log is described as the scoring log "with the topic replaced by the stats
  topic and the group replaced by the stats-reader group": a scoring log built from a bus
  whose scoring topic and group are the stats ones.
\<close>

definition stats_as_scoring_config :: "MessageBus \<Rightarrow> MessageBus" where
  "stats_as_scoring_config messagebus =
     messagebus\<lparr>topic_scoring := topic_stats messagebus,
                scoringlog_dbw_group := statslog_reader_group messagebus\<rparr>"

subsection \<open>A concrete deployment\<close>

definition example_bus :: MessageBus where
  "example_bus =
     \<lparr>topic_todo = ''frontier-todo'',
      topic_done = ''frontier-done'',
      topic_scoring = ''frontier-score'',
      topic_stats = ''frontier-stats'',
      spiderlog_dbw_group = ''dbw-spider-log'',
      spiderlog_sw_group = ''sw-spider-log'',
      scoringlog_dbw_group = ''dbw-scoring-log'',
      statslog_reader_group = ''stats-reader'',
      spider_feed_group = ''fetchers-spider-feed'',
      spider_partition_id = Some 0,
      max_next_requests = 5,
      hostname_partitioning = False,
      codec = None,
      kafka_location = ''localhost:9092'',
      enable_ssl = False,
      cert_path = [],
      enable_sasl = False,
      sasl_username = [],
      sasl_password = [],
      spider_log_partitions = 4,
      spider_feed_partitions = 4,
      kafka_max_block_ms = 1000\<rparr>"

text \<open>
  A cluster whose topics all have the partitions \<open>pids\<close>, whose coordinator grants
  every partition, and which accepts commits iff \<open>ok\<close>. Three records of partition
  2 of the feed topic are waiting, with a pause after the second.
\<close>

definition example_cluster :: "int list \<Rightarrow> bool \<Rightarrow> Cluster" where
  "example_cluster pids ok =
     \<lparr>topic_partitions = (\<lambda>t. Some pids),
      granted = (\<lambda>g tp. True),
      deliveries = (\<lambda>g. [Some (ConsumerRecord ''frontier-todo'' 2 90 ''a''),
                           Some (ConsumerRecord ''frontier-todo'' 2 91 ''b''),
                           None,
                           Some (ConsumerRecord ''frontier-todo'' 2 92 ''c'')]),
      start_offset = (\<lambda>g tp. 90),
      commit_accepted = (\<lambda>g. ok)\<rparr>"

text \<open>A lag snapshot: partition 0 has lag 3, partition 1 lag 10, partition 2 lag 5.\<close>

definition example_lags :: "(int \<times> int) list" where
  "example_lags = [(0, 3), (1, 10), (2, 5)]"

text \<open>
  The consumer that \<^verbatim>\<open>spider_feed().consumer(2)\<close> builds on that cluster when every
  topic has the partitions 0 to 3: a crawler worker with partition 2 assigned to it.
\<close>

definition example_consumer :: "bool \<Rightarrow> Consumer" where
  "example_consumer ok =
     \<lparr>c_location = ''localhost:9092'',
      c_group = ''fetchers-spider-feed'',
      c_topic = ''frontier-todo'',
      c_consumer =
        assign [TopicPartition ''frontier-todo'' 2]
          (KafkaConsumer_new (example_cluster [0, 1, 2, 3] ok) ''localhost:9092''
             ''fetchers-spider-feed'' 10485760 100 (''frontier-todo-'' @ str_int 2)
             120000 10000 []),
      c_partitions = [TopicPartition ''frontier-todo'' 2]\<rparr>"

section \<open>Properties\<close>

subsection \<open>Admission control\<close>

lemma available_partitions_loop_eq:
  "available_partitions_loop thr items acc =
     acc @ map fst (filter (\<lambda>(p, lag). lag < thr) items)"
  by (induction thr items acc rule: available_partitions_loop.induct) auto

lemma available_partitions_eq:
  "SpiderFeedStream_available_partitions self lags =
     map fst (filter (\<lambda>(p, lag). lag < sf_max_next_requests self) lags)"
  by (simp add: SpiderFeedStream_available_partitions_def available_partitions_loop_eq)

text \<open>
  C1. For every lag snapshot of the offset fetcher (a dictionary: each partition occurs
  once) and every threshold \<^verbatim>\<open>max_next_requests\<close>, \<^verbatim>\<open>available_partitions()\<close>
  returns exactly the partitions whose lag is strictly below the threshold; a partition of
  the snapshot is left out if and only if its lag is at least the threshold.
\<close>

theorem available_partitions_threshold:
  assumes "distinct (map fst lags)"
  shows "set (SpiderFeedStream_available_partitions self lags) =
           {p. \<exists>lag. map_of lags p = Some lag \<and> lag < sf_max_next_requests self}
         \<and> (\<forall>p lag. map_of lags p = Some lag \<longrightarrow>
               (p \<notin> set (SpiderFeedStream_available_partitions self lags))
                 = (sf_max_next_requests self \<le> lag))"
proof -
  have mem: "\<And>p. p \<in> set (SpiderFeedStream_available_partitions self lags) \<longleftrightarrow>
               (\<exists>lag. map_of lags p = Some lag \<and> lag < sf_max_next_requests self)"
    using assms by (force simp: available_partitions_eq)
  show ?thesis
    using mem by (auto simp: not_less)
qed

theorem available_partitions_threshold_witness:
  "distinct (map fst example_lags)
   \<and> SpiderFeedStream_available_partitions (spider_feed example_bus) example_lags = [0]
   \<and> map_of example_lags 1 = Some 10
   \<and> (1 \<notin> set (SpiderFeedStream_available_partitions (spider_feed example_bus) example_lags))
       = (sf_max_next_requests (spider_feed example_bus) \<le> 10)"
proof -
  have d: "distinct (map fst example_lags)"
    by (simp add: example_lags_def)
  have m: "map_of example_lags 1 = Some 10"
    by (simp add: example_lags_def)
  have r: "SpiderFeedStream_available_partitions (spider_feed example_bus) example_lags = [0]"
    by (simp add: SpiderFeedStream_available_partitions_def spider_feed_def
        SpiderFeedStream_init_def example_bus_def example_lags_def Let_def)
  from available_partitions_threshold [OF d, of "spider_feed example_bus"] m
  have "(1 \<notin> set (SpiderFeedStream_available_partitions (spider_feed example_bus) example_lags))
       = (sf_max_next_requests (spider_feed example_bus) \<le> 10)"
    by blast
  with d m r show ?thesis by blast
qed

subsection \<open>Producers\<close>

lemma SimpleProducer_send_sent:
  "kp_sent (simple_producer (SimpleProducer_send self key messages)) =
     kp_sent (simple_producer self) @ map (ProducerRecord (simple_topic self) None) messages"
  by (induction self key messages rule: SimpleProducer_send.induct) (auto simp: kafka_send_def)

lemma SimpleProducer_send_key:
  "SimpleProducer_send self k1 messages = SimpleProducer_send self k2 messages"
  by (induction messages arbitrary: self) auto

text \<open>
  C8. The key argument of \<^verbatim>\<open>SimpleProducer.send\<close> has no influence: with any two keys
  and the same messages the producer ends in the same state, and what it has published is
  what was published before followed by the messages in argument order, each on the
  producer's topic with no routing key.
\<close>

theorem SimpleProducer_send_ignores_key:
  "SimpleProducer_send self k1 messages = SimpleProducer_send self k2 messages
   \<and> kp_sent (simple_producer (SimpleProducer_send self k1 messages)) =
       kp_sent (simple_producer self) @ map (ProducerRecord (simple_topic self) None) messages"
  using SimpleProducer_send_key [of self k1 messages k2]
    SimpleProducer_send_sent [of self k1 messages]
  by simp

lemma KeyedProducer_send_sent:
  "kp_sent (keyed_producer (KeyedProducer_send self key messages)) =
     kp_sent (keyed_producer self)
       @ map (ProducerRecord (keyed_topic_done self) (Some key)) messages"
  by (induction self key messages rule: KeyedProducer_send.induct) (auto simp: kafka_send_def)

text \<open>
  C3. \<^verbatim>\<open>KeyedProducer.send(K, m1..mk)\<close> publishes each message on the producer's
  topic with routing key \<open>K\<close>, in argument order, behind everything published before.
  Hence, for any routing \<open>route\<close> that is a function of the key, the records that go
  where \<open>K\<close> goes are the earlier such records followed by \<open>m1..mk\<close> in send order.
\<close>

theorem KeyedProducer_send_in_order:
  "kp_sent (keyed_producer (KeyedProducer_send self key messages)) =
     kp_sent (keyed_producer self)
       @ map (ProducerRecord (keyed_topic_done self) (Some key)) messages
   \<and> [r \<leftarrow> kp_sent (keyed_producer (KeyedProducer_send self key messages)).
        route (pr_key r) = route (Some key)] =
     [r \<leftarrow> kp_sent (keyed_producer self). route (pr_key r) = route (Some key)]
       @ map (ProducerRecord (keyed_topic_done self) (Some key)) messages"
proof -
  have "[r \<leftarrow> map (ProducerRecord (keyed_topic_done self) (Some key)) messages.
           route (pr_key r) = route (Some key)]
        = map (ProducerRecord (keyed_topic_done self) (Some key)) messages"
    by (induction messages) auto
  then show ?thesis
    by (simp add: KeyedProducer_send_sent)
qed

subsection \<open>Stats log\<close>

text \<open>
  C7. \<^verbatim>\<open>StatsLogStream\<close> is \<^verbatim>\<open>ScoringLogStream\<close> up to configuration: the stream
  the bus hands out for the stats log is the scoring-log stream of a bus whose scoring
  topic and group are the stats topic and the stats-reader group, and its
  \<^verbatim>\<open>consumer()\<close> and \<^verbatim>\<open>producer()\<close> are the scoring log's on that stream.
\<close>

theorem StatsLogStream_is_ScoringLogStream:
  "stats_log messagebus = scoring_log (stats_as_scoring_config messagebus)
   \<and> StatsLogStream_consumer cluster (stats_log messagebus) =
       ScoringLogStream_consumer cluster (scoring_log (stats_as_scoring_config messagebus))
   \<and> StatsLogStream_producer cluster (stats_log messagebus) =
       ScoringLogStream_producer cluster (scoring_log (stats_as_scoring_config messagebus))"
proof -
  have "stats_log messagebus = scoring_log (stats_as_scoring_config messagebus)"
    by (simp add: stats_log_def scoring_log_def StatsLogStream_init_def
        ScoringLogStream_init_def stats_as_scoring_config_def)
  then show ?thesis
    by (simp add: StatsLogStream_consumer_def StatsLogStream_producer_def)
qed

subsection \<open>Pulling a batch\<close>

lemma get_messages_loop_result:
  "fst (get_messages_loop k count result) =
     result @ map (\<lambda>x. cr_value (the x))
                (takeWhile (\<lambda>x. x \<noteq> None) (take (nat count) (kc_incoming k)))"
proof (induction k count result rule: get_messages_loop.induct)
  case (1 k count result)
  show ?case
  proof (cases "count > 0")
    case False
    then show ?thesis by (simp add: get_messages_loop.simps)
  next
    case True
    then obtain n where n: "nat count = Suc n" "nat (count - 1) = n"
      by (metis Suc_nat_eq_nat_zadd1 add.commute diff_add_cancel nat_0_le zle_diff1_eq zero_less_imp_eq_int int_nat_eq)
    show ?thesis
    proof (cases "kc_incoming k")
      case Nil
      with True show ?thesis
        by (subst get_messages_loop.simps) (simp add: kafka_next_def join_group_def Let_def)
    next
      case (Cons e rest)
      show ?thesis
      proof (cases e)
        case None
        with True Cons n show ?thesis
          by (subst get_messages_loop.simps) (simp add: kafka_next_def join_group_def Let_def)
      next
        case (Some r)
        with True Cons n "1.IH" [of "Some r" _ r] show ?thesis
          by (subst get_messages_loop.simps) (simp add: kafka_next_def join_group_def Let_def)
      qed
    qed
  qed
qed

lemma get_messages_loop_timeout:
  "kc_consumer_timeout_ms (snd (get_messages_loop k count result)) = kc_consumer_timeout_ms k"
proof (induction k count result rule: get_messages_loop.induct)
  case (1 k count result)
  show ?case
  proof (cases "count > 0")
    case False
    then show ?thesis by (simp add: get_messages_loop.simps)
  next
    case True
    show ?thesis
    proof (cases "kafka_next k")
      case (Pair m k')
      have k': "kc_consumer_timeout_ms k' = kc_consumer_timeout_ms k"
        using Pair by (auto simp: kafka_next_def join_group_def Let_def split: list.splits option.splits if_splits)
      show ?thesis
      proof (cases m)
        case None
        with True Pair k' show ?thesis
          by (subst get_messages_loop.simps) simp
      next
        case (Some r)
        with True Pair k' "1.IH" [of "Some r" k' r] show ?thesis
          by (subst get_messages_loop.simps) simp
      qed
    qed
  qed
qed

lemma get_messages_loop_incoming:
  "kc_incoming (snd (get_messages_loop k count result)) =
     drop (length (takeWhile (\<lambda>x. x \<noteq> None) (take (nat count) (kc_incoming k)))
           + (if length (takeWhile (\<lambda>x. x \<noteq> None) (take (nat count) (kc_incoming k)))
                 < nat count then 1 else 0))
       (kc_incoming k)"
proof (induction k count result rule: get_messages_loop.induct)
  case (1 k count result)
  show ?case
  proof (cases "count > 0")
    case False
    then show ?thesis by (simp add: get_messages_loop.simps)
  next
    case True
    then obtain n where n: "nat count = Suc n" "nat (count - 1) = n"
      by (metis Suc_nat_eq_nat_zadd1 add.commute diff_add_cancel nat_0_le zle_diff1_eq zero_less_imp_eq_int int_nat_eq)
    show ?thesis
    proof (cases "kc_incoming k")
      case Nil
      with True show ?thesis
        by (subst get_messages_loop.simps) (simp add: kafka_next_def join_group_def Let_def)
    next
      case (Cons e rest)
      show ?thesis
      proof (cases e)
        case None
        with True Cons n show ?thesis
          by (subst get_messages_loop.simps) (simp add: kafka_next_def join_group_def Let_def)
      next
        case (Some r)
        with True Cons n "1.IH" [of "Some r" _ r] show ?thesis
          by (subst get_messages_loop.simps) (simp add: kafka_next_def join_group_def Let_def)
      qed
    qed
  qed
qed

lemma example_consumer_built:
  "SpiderFeedStream_consumer (example_cluster [0, 1, 2, 3] ok) (spider_feed example_bus) (Some 2)
     = Inr (example_consumer ok)"
  by (simp add: SpiderFeedStream_consumer_def spider_feed_def SpiderFeedStream_init_def
      example_bus_def Consumer_init_def Let_def assert_partitions_def partitions_for_topic_def
      KafkaConsumer_new_def assign_def example_cluster_def example_consumer_def)

lemma example_consumer_incoming:
  "kc_incoming (c_consumer (example_consumer ok)) =
     [Some (ConsumerRecord ''frontier-todo'' 2 90 ''a''),
      Some (ConsumerRecord ''frontier-todo'' 2 91 ''b''),
      None,
      Some (ConsumerRecord ''frontier-todo'' 2 92 ''c'')]"
  by (simp add: example_consumer_def assign_def KafkaConsumer_new_def example_cluster_def)

text \<open>
  C6. One call of \<^verbatim>\<open>get_messages(timeout, count)\<close> returns (the function is total) a
  list of at most \<open>count\<close> messages when \<open>count \<ge> 0\<close>. The list is built afresh in each
  call: it is the values of the records the iterator yields from now on, up to \<open>count\<close>
  of them and up to the first \<^verbatim>\<open>StopIteration\<close>, and the consumer is left behind exactly
  what the call has taken, so that the next call starts a new batch there.
\<close>

theorem get_messages_batch:
  "(0 \<le> count \<longrightarrow> int (length (fst (Consumer_get_messages self timeout count))) \<le> count)
   \<and> fst (Consumer_get_messages self timeout count) =
       map (\<lambda>x. cr_value (the x))
         (takeWhile (\<lambda>x. x \<noteq> None) (take (nat count) (kc_incoming (c_consumer self))))
   \<and> kc_incoming (c_consumer (snd (Consumer_get_messages self timeout count))) =
       drop (length (takeWhile (\<lambda>x. x \<noteq> None)
                       (take (nat count) (kc_incoming (c_consumer self))))
             + (if length (takeWhile (\<lambda>x. x \<noteq> None)
                             (take (nat count) (kc_incoming (c_consumer self))))
                   < nat count then 1 else 0))
         (kc_incoming (c_consumer self))"
proof -
  obtain result k where lp: "get_messages_loop (c_consumer self) count [] = (result, k)"
    by (cases "get_messages_loop (c_consumer self) count []")
  have r: "result = map (\<lambda>x. cr_value (the x))
         (takeWhile (\<lambda>x. x \<noteq> None) (take (nat count) (kc_incoming (c_consumer self))))"
    using get_messages_loop_result [of "c_consumer self" count "[]"] lp by simp
  have i: "kc_incoming k = drop (length (takeWhile (\<lambda>x. x \<noteq> None)
                       (take (nat count) (kc_incoming (c_consumer self))))
             + (if length (takeWhile (\<lambda>x. x \<noteq> None)
                             (take (nat count) (kc_incoming (c_consumer self))))
                   < nat count then 1 else 0))
         (kc_incoming (c_consumer self))"
    using get_messages_loop_incoming [of "c_consumer self" count "[]"] lp by simp
  have "length result \<le> nat count"
  proof -
    have "length result \<le> length (take (nat count) (kc_incoming (c_consumer self)))"
      unfolding r length_map by (rule length_takeWhile_le)
    then show ?thesis by simp
  qed
  then have l: "0 \<le> count \<longrightarrow> int (length result) \<le> count"
    by auto
  show ?thesis
    using r i l by (simp add: Consumer_get_messages_def lp)
qed

theorem get_messages_batch_witness:
  "(0::int) \<le> 3
   \<and> int (length (fst (Consumer_get_messages (example_consumer True) (1::int) 3))) \<le> 3
   \<and> fst (Consumer_get_messages (example_consumer True) (1::int) 3) = [''a'', ''b'']
   \<and> fst (Consumer_get_messages
             (snd (Consumer_get_messages (example_consumer True) (1::int) 3)) (1::int) 3)
       = [''c'']"
proof -
  have h: "(0::int) \<le> 3" by simp
  note a = get_messages_batch [of 3 "example_consumer True" "1::int"]
  note b = get_messages_batch
    [of 3 "snd (Consumer_get_messages (example_consumer True) (1::int) 3)" "1::int"]
  have a2: "fst (Consumer_get_messages (example_consumer True) (1::int) 3) = [''a'', ''b'']"
    using a by (simp add: example_consumer_incoming)
  have a3: "kc_incoming (c_consumer (snd (Consumer_get_messages (example_consumer True) (1::int) 3)))
      = [Some (ConsumerRecord ''frontier-todo'' 2 92 ''c'')]"
    using a by (simp add: example_consumer_incoming)
  have b2: "fst (Consumer_get_messages
             (snd (Consumer_get_messages (example_consumer True) (1::int) 3)) (1::int) 3)
       = [''c'']"
    using b by (simp add: a3)
  from a h have "int (length (fst (Consumer_get_messages (example_consumer True) (1::int) 3))) \<le> 3"
    by blast
  with h a2 b2 show ?thesis by blast
qed

lemma Consumer_init_timeout:
  "Consumer_init cluster location ssl cert topic grp pid sasl user pw = Inr c
   \<Longrightarrow> kc_consumer_timeout_ms (c_consumer c) = 100"
  by (auto simp: Consumer_init_def Let_def KafkaConsumer_new_def assign_def subscribe_def
      split: option.splits)

lemma example_consumer_init:
  "Consumer_init (example_cluster [0, 1, 2, 3] ok) ''localhost:9092'' False []
     ''frontier-todo'' ''fetchers-spider-feed'' (Some 2) False [] [] = Inr (example_consumer ok)"
  by (simp add: Consumer_init_def Let_def partitions_for_topic_def KafkaConsumer_new_def
      assign_def example_cluster_def example_consumer_def)

text \<open>
  C10. \<^verbatim>\<open>get_messages\<close> never uses its timeout: from the same consumer and with the
  same count, any two timeouts give the same batch and the same consumer afterwards. The
  client's \<^verbatim>\<open>consumer_timeout_ms\<close> is left as it was, and a constructed consumer has it
  at 100.
\<close>

theorem get_messages_ignores_timeout:
  "Consumer_get_messages self t1 count = Consumer_get_messages self t2 count
   \<and> kc_consumer_timeout_ms (c_consumer (snd (Consumer_get_messages self t1 count)))
       = kc_consumer_timeout_ms (c_consumer self)
   \<and> (Consumer_init cluster location ssl cert topic grp pid sasl user pw = Inr self
        \<longrightarrow> kc_consumer_timeout_ms (c_consumer self) = 100)"
proof -
  obtain result k where lp: "get_messages_loop (c_consumer self) count [] = (result, k)"
    by (cases "get_messages_loop (c_consumer self) count []")
  have "kc_consumer_timeout_ms (c_consumer (snd (Consumer_get_messages self t1 count)))
       = kc_consumer_timeout_ms (c_consumer self)"
    using get_messages_loop_timeout [of "c_consumer self" count "[]"]
    by (simp add: Consumer_get_messages_def lp)
  moreover have "Consumer_get_messages self t1 count = Consumer_get_messages self t2 count"
    by (simp add: Consumer_get_messages_def)
  ultimately show ?thesis
    by (auto dest: Consumer_init_timeout)
qed

theorem get_messages_ignores_timeout_witness:
  "Consumer_init (example_cluster [0, 1, 2, 3] True) ''localhost:9092'' False []
     ''frontier-todo'' ''fetchers-spider-feed'' (Some 2) False [] [] = Inr (example_consumer True)
   \<and> kc_consumer_timeout_ms (c_consumer (example_consumer True)) = 100
   \<and> Consumer_get_messages (example_consumer True) (0::int) 3
       = Consumer_get_messages (example_consumer True) (60000::int) 3
   \<and> kc_consumer_timeout_ms
       (c_consumer (snd (Consumer_get_messages (example_consumer True) (0::int) 3))) = 100"
proof -
  note t = get_messages_ignores_timeout
    [of "example_consumer True" "0::int" 3 "60000::int" "example_cluster [0, 1, 2, 3] True"
        "''localhost:9092''" False "[]" "''frontier-todo''" "''fetchers-spider-feed''" "Some 2"
        False "[]" "[]"]
  have i: "Consumer_init (example_cluster [0, 1, 2, 3] True) ''localhost:9092'' False []
     ''frontier-todo'' ''fetchers-spider-feed'' (Some 2) False [] [] = Inr (example_consumer True)"
    by (rule example_consumer_init)
  from t i have c: "kc_consumer_timeout_ms (c_consumer (example_consumer True)) = 100"
    by blast
  from t have e: "Consumer_get_messages (example_consumer True) (0::int) 3
       = Consumer_get_messages (example_consumer True) (60000::int) 3"
    by blast
  from t have "kc_consumer_timeout_ms
       (c_consumer (snd (Consumer_get_messages (example_consumer True) (0::int) 3)))
         = kc_consumer_timeout_ms (c_consumer (example_consumer True))"
    by blast
  then have k: "kc_consumer_timeout_ms
       (c_consumer (snd (Consumer_get_messages (example_consumer True) (0::int) 3))) = 100"
    by (simp only: c)
  from i c e k show ?thesis by blast
qed

subsection \<open>The consumer group of a spider-log consumer\<close>

lemma Consumer_init_group:
  "Consumer_init cluster location ssl cert topic grp pid sasl user pw = Inr c
   \<Longrightarrow> c_group c = grp \<and> kc_group_id (c_consumer c) = grp"
  by (auto simp: Consumer_init_def Let_def KafkaConsumer_new_def assign_def subscribe_def
      split: option.splits)

lemma assert_partitions_Inr:
  "assert_partitions c topic n msg = Inr c' \<Longrightarrow> c' = c"
  by (auto simp: assert_partitions_def split: option.splits if_splits)

lemma SpiderLogStream_consumer_Inr_group:
  assumes "SpiderLogStream_consumer cluster self pid ty = Inr d"
  shows "c_group d = (if py_eq_bytes ty ''sw'' then sl_sw_group self else sl_db_group self)
         \<and> kc_group_id (c_consumer d) = c_group d"
proof -
  let ?g = "if py_eq_bytes ty ''sw'' then sl_sw_group self else sl_db_group self"
  from assms obtain c0 where
    i: "Consumer_init cluster (sl_location self) (sl_enable_ssl self) (sl_cert_path self)
          (sl_topic self) ?g pid
          (sl_enable_sasl self) (sl_sasl_username self) (sl_sasl_password self) = Inr c0"
    and p: "assert_partitions c0 (sl_topic self) (sl_partitions self) [] = Inr d"
    by (auto simp: SpiderLogStream_consumer_def Let_def split: sum.splits)
  from p have "d = c0" by (rule assert_partitions_Inr)
  with Consumer_init_group [OF i] show ?thesis
    by simp
qed

lemma example_spider_log_consumer:
  "\<exists>c. SpiderLogStream_consumer (example_cluster [0, 1, 2, 3] True) (spider_log example_bus)
         (Some 0) ty = Inr c"
  by (simp add: SpiderLogStream_consumer_def spider_log_def SpiderLogStream_init_def
      example_bus_def Consumer_init_def Let_def assert_partitions_def partitions_for_topic_def
      KafkaConsumer_new_def assign_def example_cluster_def)

text \<open>
  C9 claims the strategy-worker group only for a \<open>type\<close> that is exactly the byte
  string \<^verbatim>\<open>b'sw'\<close>. The test is Python's \<^verbatim>\<open>==\<close>: \<^verbatim>\<open>bytearray(b'sw')\<close> is another
  value, it compares equal to \<^verbatim>\<open>b'sw'\<close>, and the consumer built for it is in the
  strategy-worker group.
\<close>

theorem SpiderLogStream_consumer_bytearray_counterexample:
  "PyByteArray ''sw'' \<noteq> PyBytes ''sw''
   \<and> (\<exists>c. SpiderLogStream_consumer (example_cluster [0, 1, 2, 3] True)
             (spider_log example_bus) (Some 0) (PyByteArray ''sw'') = Inr c
          \<and> c_group c = ''sw-spider-log''
          \<and> c_group c \<noteq> sl_db_group (spider_log example_bus))"
proof -
  let ?cl = "example_cluster [0, 1, 2, 3] True"
  let ?s = "spider_log example_bus"
  have sw: "sl_sw_group ?s = ''sw-spider-log''" and db: "sl_db_group ?s = ''dbw-spider-log''"
    by (simp_all add: spider_log_def SpiderLogStream_init_def example_bus_def)
  from example_spider_log_consumer obtain c where
    c: "SpiderLogStream_consumer ?cl ?s (Some 0) (PyByteArray ''sw'') = Inr c"
    by blast
  from SpiderLogStream_consumer_Inr_group [OF c] have g: "c_group c = ''sw-spider-log''"
    by (simp add: sw)
  then have "c_group c \<noteq> sl_db_group ?s"
    by (simp add: db)
  with c g show ?thesis by auto
qed

text \<open>
  C9, amended. \<^verbatim>\<open>SpiderLogStream.consumer(partition_id, type)\<close> builds its consumer
  in the strategy-worker group exactly when \<open>type\<close> compares equal to the byte string
  \<^verbatim>\<open>b'sw'\<close> (\<^verbatim>\<open>type == b'sw'\<close>, Python 3): for \<^verbatim>\<open>b'sw'\<close> itself and for any
  other value equal to it, and then it behaves as for \<^verbatim>\<open>b'sw'\<close>. For every value that
  does not compare equal to \<^verbatim>\<open>b'sw'\<close>, the text string \<^verbatim>\<open>'sw'\<close> among them, it builds
  the consumer in the DB-writer group and behaves as for \<^verbatim>\<open>'db'\<close>.
\<close>

theorem SpiderLogStream_consumer_group_by_equality:
  "(SpiderLogStream_consumer cluster self pid type = Inr c \<longrightarrow>
      c_group c = (if py_eq_bytes type ''sw'' then sl_sw_group self else sl_db_group self)
      \<and> kc_group_id (c_consumer c) = c_group c)
   \<and> py_eq_bytes (PyBytes ''sw'') ''sw''
   \<and> \<not> py_eq_bytes (PyStr ''sw'') ''sw''
   \<and> (SpiderLogStream_consumer cluster self pid (PyStr ''sw'') = Inr c' \<longrightarrow>
        c_group c' = sl_db_group self)
   \<and> (py_eq_bytes type ''sw'' \<longrightarrow>
        SpiderLogStream_consumer cluster self pid type =
        SpiderLogStream_consumer cluster self pid (PyBytes ''sw''))
   \<and> (\<not> py_eq_bytes type ''sw'' \<longrightarrow>
        SpiderLogStream_consumer cluster self pid type =
        SpiderLogStream_consumer cluster self pid (PyStr ''db''))"
proof -
  have 1: "SpiderLogStream_consumer cluster self pid type = Inr c \<longrightarrow>
      c_group c = (if py_eq_bytes type ''sw'' then sl_sw_group self else sl_db_group self)
      \<and> kc_group_id (c_consumer c) = c_group c"
    using SpiderLogStream_consumer_Inr_group [of cluster self pid type c] by blast
  have 2: "SpiderLogStream_consumer cluster self pid (PyStr ''sw'') = Inr c' \<longrightarrow>
        c_group c' = sl_db_group self"
    using SpiderLogStream_consumer_Inr_group [of cluster self pid "PyStr ''sw''" c'] by simp
  have 3: "py_eq_bytes type ''sw'' \<longrightarrow>
        SpiderLogStream_consumer cluster self pid type =
        SpiderLogStream_consumer cluster self pid (PyBytes ''sw'')"
    by (simp add: SpiderLogStream_consumer_def)
  have 4: "\<not> py_eq_bytes type ''sw'' \<longrightarrow>
        SpiderLogStream_consumer cluster self pid type =
        SpiderLogStream_consumer cluster self pid (PyStr ''db'')"
    by (simp add: SpiderLogStream_consumer_def)
  from 1 2 3 4 show ?thesis by simp
qed

theorem SpiderLogStream_consumer_group_by_equality_witness:
  "(\<exists>c. SpiderLogStream_consumer (example_cluster [0, 1, 2, 3] True) (spider_log example_bus)
           (Some 0) (PyBytes ''sw'') = Inr c
        \<and> c_group c = ''sw-spider-log'')
   \<and> (\<exists>c. SpiderLogStream_consumer (example_cluster [0, 1, 2, 3] True) (spider_log example_bus)
           (Some 0) (PyStr ''sw'') = Inr c
        \<and> c_group c = ''dbw-spider-log'')
   \<and> py_eq_bytes (PyMemoryView ''sw'') ''sw''
   \<and> SpiderLogStream_consumer (example_cluster [0, 1, 2, 3] True) (spider_log example_bus)
        (Some 0) (PyMemoryView ''sw'')
      = SpiderLogStream_consumer (example_cluster [0, 1, 2, 3] True) (spider_log example_bus)
        (Some 0) (PyBytes ''sw'')
   \<and> \<not> py_eq_bytes PyNone ''sw''
   \<and> SpiderLogStream_consumer (example_cluster [0, 1, 2, 3] True) (spider_log example_bus)
        (Some 0) PyNone
      = SpiderLogStream_consumer (example_cluster [0, 1, 2, 3] True) (spider_log example_bus)
        (Some 0) (PyStr ''db'')"
proof -
  let ?cl = "example_cluster [0, 1, 2, 3] True"
  let ?s = "spider_log example_bus"
  have sw: "sl_sw_group ?s = ''sw-spider-log''" and db: "sl_db_group ?s = ''dbw-spider-log''"
    by (simp_all add: spider_log_def SpiderLogStream_init_def example_bus_def)
  from example_spider_log_consumer obtain c1 where
    c1: "SpiderLogStream_consumer ?cl ?s (Some 0) (PyBytes ''sw'') = Inr c1"
    by blast
  from example_spider_log_consumer obtain c2 where
    c2: "SpiderLogStream_consumer ?cl ?s (Some 0) (PyStr ''sw'') = Inr c2"
    by blast
  from SpiderLogStream_consumer_group_by_equality [of ?cl ?s "Some 0" "PyBytes ''sw''" c1 c2] c1
  have g1: "c_group c1 = ''sw-spider-log''"
    by (simp add: sw)
  from SpiderLogStream_consumer_group_by_equality [of ?cl ?s "Some 0" "PyBytes ''sw''" c1 c2] c2
  have g2: "c_group c2 = ''dbw-spider-log''"
    by (simp add: db)
  have m: "py_eq_bytes (PyMemoryView ''sw'') ''sw''" by simp
  from SpiderLogStream_consumer_group_by_equality
    [of ?cl ?s "Some 0" "PyMemoryView ''sw''" c1 c2] m
  have e1: "SpiderLogStream_consumer ?cl ?s (Some 0) (PyMemoryView ''sw'')
      = SpiderLogStream_consumer ?cl ?s (Some 0) (PyBytes ''sw'')"
    by blast
  have n: "\<not> py_eq_bytes PyNone ''sw''" by simp
  from SpiderLogStream_consumer_group_by_equality [of ?cl ?s "Some 0" PyNone c1 c2] n
  have e2: "SpiderLogStream_consumer ?cl ?s (Some 0) PyNone
      = SpiderLogStream_consumer ?cl ?s (Some 0) (PyStr ''db'')"
    by blast
  from c1 g1 c2 g2 m e1 n e2 show ?thesis by blast
qed

subsection \<open>Offsets of a consumer\<close>

lemma get_offset_loop_missing:
  "partition_id \<notin> tp_partition ` set tps
   \<Longrightarrow> get_offset_loop k tps partition_id = Inl (KeyError partition_id)"
  by (induction tps) auto

lemma get_offset_loop_found:
  "\<forall>tp\<in>set tps. tp_topic tp = t \<Longrightarrow> partition_id \<in> tp_partition ` set tps
   \<Longrightarrow> get_offset_loop k tps partition_id = position k (TopicPartition t partition_id)"
proof (induction tps)
  case Nil
  then show ?case by simp
next
  case (Cons tp tps)
  show ?case
  proof (cases "tp_partition tp = partition_id")
    case True
    moreover from Cons.prems have "tp_topic tp = t" by simp
    ultimately have "tp = TopicPartition t partition_id"
      by (cases tp) simp
    with True show ?thesis by simp
  next
    case False
    with Cons show ?thesis by auto
  qed
qed

lemma Consumer_init_partitions:
  "Consumer_init cluster location ssl cert topic grp pid sasl user pw = Inr c
   \<Longrightarrow> (\<forall>tp\<in>set (c_partitions c). tp_topic tp = c_topic c)
       \<and> set (kc_assignment (c_consumer c)) \<subseteq> set (c_partitions c)"
  by (auto simp: Consumer_init_def Let_def KafkaConsumer_new_def assign_def subscribe_def
      partitions_for_topic_def split: option.splits)

text \<open>
  C5. For a consumer as the constructor builds it (its partition list names partitions
  of its own topic and covers what the client has assigned), \<^verbatim>\<open>get_offset(p)\<close>
  raises when partition \<open>p\<close> of the topic is not assigned to the consumer, and returns
  the integer offset of \<open>p\<close> when it is. A \<open>p\<close> outside the consumer's partition list
  raises the method's own \<^verbatim>\<open>KeyError\<close>; a listed partition that the coordinator has
  not assigned raises in the client's \<^verbatim>\<open>position\<close>.
\<close>

theorem get_offset_assigned:
  assumes "\<forall>tp\<in>set (c_partitions self). tp_topic tp = c_topic self"
    and "set (kc_assignment (c_consumer self)) \<subseteq> set (c_partitions self)"
  shows "(TopicPartition (c_topic self) p \<notin> set (kc_assignment (c_consumer self)) \<longrightarrow>
           (\<exists>e. Consumer_get_offset self p = Inl e))
       \<and> (TopicPartition (c_topic self) p \<in> set (kc_assignment (c_consumer self)) \<longrightarrow>
           Consumer_get_offset self p
             = Inr (kc_positions (c_consumer self) (TopicPartition (c_topic self) p)))
       \<and> (p \<notin> tp_partition ` set (c_partitions self) \<longrightarrow>
           Consumer_get_offset self p = Inl (KeyError p))"
proof -
  let ?tp = "TopicPartition (c_topic self) p"
  have missing: "p \<notin> tp_partition ` set (c_partitions self) \<Longrightarrow>
      Consumer_get_offset self p = Inl (KeyError p)"
    by (simp add: Consumer_get_offset_def get_offset_loop_missing)
  have found: "p \<in> tp_partition ` set (c_partitions self) \<Longrightarrow>
      Consumer_get_offset self p = position (c_consumer self) ?tp"
    using assms(1) by (simp add: Consumer_get_offset_def get_offset_loop_found)
  have unassigned: "?tp \<notin> set (kc_assignment (c_consumer self)) \<Longrightarrow>
      \<exists>e. Consumer_get_offset self p = Inl e"
  proof (cases "p \<in> tp_partition ` set (c_partitions self)")
    case True
    assume "?tp \<notin> set (kc_assignment (c_consumer self))"
    with found [OF True] show ?thesis by (simp add: position_def)
  next
    case False
    with missing show ?thesis by blast
  qed
  have assigned: "?tp \<in> set (kc_assignment (c_consumer self)) \<Longrightarrow>
      Consumer_get_offset self p = Inr (kc_positions (c_consumer self) ?tp)"
  proof -
    assume a: "?tp \<in> set (kc_assignment (c_consumer self))"
    with assms(2) have "?tp \<in> set (c_partitions self)" by blast
    then have "tp_partition ?tp \<in> tp_partition ` set (c_partitions self)"
      by (rule imageI)
    then have "p \<in> tp_partition ` set (c_partitions self)" by simp
    from found [OF this] a show ?thesis by (simp add: position_def)
  qed
  from missing unassigned assigned show ?thesis by blast
qed

lemma example_consumer_assignment:
  "kc_assignment (c_consumer (example_consumer ok)) = [TopicPartition ''frontier-todo'' 2]"
  by (simp add: example_consumer_def assign_def KafkaConsumer_new_def example_cluster_def
      partitions_for_topic_def)

theorem get_offset_assigned_witness:
  "set (kc_assignment (c_consumer (example_consumer True)))
        \<subseteq> set (c_partitions (example_consumer True))
   \<and> TopicPartition (c_topic (example_consumer True)) 2
        \<in> set (kc_assignment (c_consumer (example_consumer True)))
   \<and> Consumer_get_offset (example_consumer True) 2 = Inr 90
   \<and> TopicPartition (c_topic (example_consumer True)) 7
        \<notin> set (kc_assignment (c_consumer (example_consumer True)))
   \<and> Consumer_get_offset (example_consumer True) 7 = Inl (KeyError 7)"
proof -
  let ?c = "example_consumer True"
  have t: "c_topic ?c = ''frontier-todo''"
    and ps: "c_partitions ?c = [TopicPartition ''frontier-todo'' 2]"
    by (simp_all add: example_consumer_def)
  have h1: "\<forall>tp\<in>set (c_partitions ?c). tp_topic tp = c_topic ?c"
    by (simp add: t ps)
  have h2: "set (kc_assignment (c_consumer ?c)) \<subseteq> set (c_partitions ?c)"
    by (simp add: ps example_consumer_assignment)
  have a2: "TopicPartition (c_topic ?c) 2 \<in> set (kc_assignment (c_consumer ?c))"
    by (simp add: t example_consumer_assignment)
  have a7: "TopicPartition (c_topic ?c) 7 \<notin> set (kc_assignment (c_consumer ?c))"
    by (simp add: t example_consumer_assignment)
  have n7: "7 \<notin> tp_partition ` set (c_partitions ?c)"
    by (simp add: ps)
  have pos: "kc_positions (c_consumer ?c) (TopicPartition (c_topic ?c) 2) = 90"
    by (simp add: example_consumer_def assign_def KafkaConsumer_new_def example_cluster_def)
  from get_offset_assigned [OF h1 h2, of 2] a2 pos
  have r2: "Consumer_get_offset ?c 2 = Inr 90" by simp
  from get_offset_assigned [OF h1 h2, of 7] n7
  have r7: "Consumer_get_offset ?c 7 = Inl (KeyError 7)" by blast
  from h2 a2 r2 a7 r7 show ?thesis by blast
qed

subsection \<open>Closing a consumer\<close>

lemma get_messages_loop_session:
  "kc_cluster (snd (get_messages_loop k count result)) = kc_cluster k
   \<and> kc_group_id (snd (get_messages_loop k count result)) = kc_group_id k
   \<and> kc_closed (snd (get_messages_loop k count result)) = kc_closed k"
proof (induction k count result rule: get_messages_loop.induct)
  case (1 k count result)
  show ?case
  proof (cases "count > 0")
    case False
    then show ?thesis by (simp add: get_messages_loop.simps)
  next
    case True
    show ?thesis
    proof (cases "kafka_next k")
      case (Pair m k')
      have k': "kc_cluster k' = kc_cluster k \<and> kc_group_id k' = kc_group_id k
          \<and> kc_closed k' = kc_closed k"
        using Pair
        by (auto simp: kafka_next_def join_group_def Let_def
            split: list.splits option.splits if_splits)
      show ?thesis
      proof (cases m)
        case None
        with True Pair k' show ?thesis
          by (subst (1 2 3) get_messages_loop.simps) simp
      next
        case (Some r)
        with True Pair k' "1.IH" [of "Some r" k' r] show ?thesis
          by (subst (1 2 3) get_messages_loop.simps) simp
      qed
    qed
  qed
qed

text \<open>
  C4 claims that a failed commit does not keep \<^verbatim>\<open>close()\<close> from releasing the
  connection. On a cluster that refuses the commit, \<^verbatim>\<open>close()\<close> raises the commit's
  error and the client is still open afterwards, for a consumer just built and for one
  that has read a batch.
\<close>

theorem Consumer_close_failed_commit_counterexample:
  "fst (Consumer_close (example_consumer False)) = Some CommitFailedError
   \<and> \<not> kc_closed (c_consumer (snd (Consumer_close (example_consumer False))))
   \<and> fst (Consumer_close (snd (Consumer_get_messages (example_consumer False) (1::int) 3)))
       = Some CommitFailedError
   \<and> \<not> kc_closed (c_consumer (snd (Consumer_close
           (snd (Consumer_get_messages (example_consumer False) (1::int) 3)))))"
proof -
  obtain result k where
    lp: "get_messages_loop (c_consumer (example_consumer False)) 3 [] = (result, k)"
    by (cases "get_messages_loop (c_consumer (example_consumer False)) 3 []")
  from get_messages_loop_session [of "c_consumer (example_consumer False)" 3 "[]"] lp
  have k: "kc_cluster k = example_cluster [0, 1, 2, 3] False"
    "kc_group_id k = ''fetchers-spider-feed''" "\<not> kc_closed k"
    by (simp_all add: example_consumer_def assign_def KafkaConsumer_new_def)
  have fresh: "fst (Consumer_close (example_consumer False)) = Some CommitFailedError
   \<and> \<not> kc_closed (c_consumer (snd (Consumer_close (example_consumer False))))"
    by (simp add: Consumer_close_def commit_def example_consumer_def assign_def
        KafkaConsumer_new_def example_cluster_def)
  have later: "fst (Consumer_close (snd (Consumer_get_messages (example_consumer False) (1::int) 3)))
       = Some CommitFailedError
   \<and> \<not> kc_closed (c_consumer (snd (Consumer_close
           (snd (Consumer_get_messages (example_consumer False) (1::int) 3)))))"
    using k by (simp add: Consumer_close_def commit_def Consumer_get_messages_def lp
        example_cluster_def)
  from fresh later show ?thesis by blast
qed

text \<open>
  C4, amended. \<^verbatim>\<open>close()\<close> commits the read position of every assigned partition
  and then releases the connection. When the commit fails, its error is raised to the
  caller and the call releases nothing: the consumer is left as it was.
\<close>

theorem Consumer_close_commit_then_release:
  "(commit_accepted (kc_cluster (c_consumer self)) (kc_group_id (c_consumer self)) \<longrightarrow>
      fst (Consumer_close self) = None
      \<and> kc_closed (c_consumer (snd (Consumer_close self)))
      \<and> (\<forall>tp\<in>set (kc_assignment (c_consumer self)).
            kc_committed (c_consumer (snd (Consumer_close self))) tp
              = Some (kc_positions (c_consumer self) tp)))
   \<and> (\<not> commit_accepted (kc_cluster (c_consumer self)) (kc_group_id (c_consumer self)) \<longrightarrow>
      fst (Consumer_close self) = Some CommitFailedError
      \<and> snd (Consumer_close self) = self)"
  by (simp add: Consumer_close_def commit_def kafka_close_def)

theorem Consumer_close_commit_then_release_witness:
  "commit_accepted (kc_cluster (c_consumer (example_consumer True)))
     (kc_group_id (c_consumer (example_consumer True)))
   \<and> fst (Consumer_close (example_consumer True)) = None
   \<and> kc_closed (c_consumer (snd (Consumer_close (example_consumer True))))
   \<and> TopicPartition ''frontier-todo'' 2
        \<in> set (kc_assignment (c_consumer (example_consumer True)))
   \<and> kc_committed (c_consumer (snd (Consumer_close (example_consumer True))))
        (TopicPartition ''frontier-todo'' 2) = Some 90
   \<and> \<not> commit_accepted (kc_cluster (c_consumer (example_consumer False)))
        (kc_group_id (c_consumer (example_consumer False)))
   \<and> snd (Consumer_close (example_consumer False)) = example_consumer False"
proof -
  let ?c = "example_consumer True"
  have ok: "commit_accepted (kc_cluster (c_consumer ?c)) (kc_group_id (c_consumer ?c))"
    by (simp add: example_consumer_def assign_def KafkaConsumer_new_def example_cluster_def)
  have a: "TopicPartition ''frontier-todo'' 2 \<in> set (kc_assignment (c_consumer ?c))"
    by (simp add: example_consumer_def assign_def KafkaConsumer_new_def example_cluster_def
        partitions_for_topic_def)
  have pos: "kc_positions (c_consumer ?c) (TopicPartition ''frontier-todo'' 2) = 90"
    by (simp add: example_consumer_def assign_def KafkaConsumer_new_def example_cluster_def)
  have no: "\<not> commit_accepted (kc_cluster (c_consumer (example_consumer False)))
        (kc_group_id (c_consumer (example_consumer False)))"
    by (simp add: example_consumer_def assign_def KafkaConsumer_new_def example_cluster_def)
  note t = Consumer_close_commit_then_release [of ?c]
  note f = Consumer_close_commit_then_release [of "example_consumer False"]
  from t ok have r1: "fst (Consumer_close ?c) = None"
    and r2: "kc_closed (c_consumer (snd (Consumer_close ?c)))"
    and r3: "\<forall>tp\<in>set (kc_assignment (c_consumer ?c)).
            kc_committed (c_consumer (snd (Consumer_close ?c))) tp
              = Some (kc_positions (c_consumer ?c) tp)"
    by blast+
  from r3 a pos have r4: "kc_committed (c_consumer (snd (Consumer_close ?c)))
        (TopicPartition ''frontier-todo'' 2) = Some 90"
    by (metis)
  from f no have r5: "snd (Consumer_close (example_consumer False)) = example_consumer False"
    by blast
  from ok r1 r2 a r4 no r5 show ?thesis by blast
qed

subsection \<open>The partition-count check\<close>

lemma Consumer_init_cluster:
  "Consumer_init cluster location ssl cert topic grp pid sasl user pw = Inr c
   \<Longrightarrow> partitions_for_topic (c_consumer c) t = topic_partitions cluster t"
  by (auto simp: Consumer_init_def Let_def KafkaConsumer_new_def assign_def subscribe_def
      partitions_for_topic_def split: option.splits)

lemma Consumer_init_known_topic:
  "topic_partitions cluster topic = Some pids
   \<Longrightarrow> \<exists>c. Consumer_init cluster location ssl cert topic grp pid sasl user pw = Inr c"
  by (cases pid) (simp_all add: Consumer_init_def Let_def KafkaConsumer_new_def
      partitions_for_topic_def)

lemma checked_consumer_mismatch:
  assumes "topic_partitions cluster topic = Some pids" and "int (length pids) \<noteq> n"
  shows "(case Consumer_init cluster location ssl cert topic grp pid sasl user pw of
            Inl e \<Rightarrow> Inl e
          | Inr c \<Rightarrow> assert_partitions c topic n msg) = Inl (AssertionError msg)"
proof -
  from Consumer_init_known_topic [OF assms(1)] obtain c where
    c: "Consumer_init cluster location ssl cert topic grp pid sasl user pw = Inr c"
    by blast
  from Consumer_init_cluster [OF c] assms
  have "assert_partitions c topic n msg = Inl (AssertionError msg)"
    by (simp add: assert_partitions_def)
  with c show ?thesis by simp
qed

lemma checked_consumer_Inr:
  assumes "(case Consumer_init cluster location ssl cert topic grp pid sasl user pw of
            Inl e \<Rightarrow> Inl e
          | Inr c \<Rightarrow> assert_partitions c topic n msg) = Inr d"
  shows "\<exists>pids. topic_partitions cluster topic = Some pids \<and> int (length pids) = n"
proof -
  from assms obtain c where
    c: "Consumer_init cluster location ssl cert topic grp pid sasl user pw = Inr c"
    and a: "assert_partitions c topic n msg = Inr d"
    by (auto split: sum.splits)
  from a Consumer_init_cluster [OF c, of topic] show ?thesis
    by (auto simp: assert_partitions_def split: option.splits if_splits)
qed

text \<open>
  C2 claims the partition-count validation at consumer and at producer creation, on
  every stream. With topics of two partitions and four configured,
  \<^verbatim>\<open>spider_log().producer()\<close> returns an open producer that publishes, and so does
  \<^verbatim>\<open>spider_feed().producer()\<close>; the scoring log, which has no configured count,
  hands out its consumer.
\<close>

theorem producer_without_partition_check_counterexample:
  "topic_partitions (example_cluster [0, 1] True) (sl_topic (spider_log example_bus))
     = Some [0, 1]
   \<and> sl_partitions (spider_log example_bus) = 4
   \<and> \<not> kp_closed (keyed_producer
          (SpiderLogStream_producer (example_cluster [0, 1] True) (spider_log example_bus)))
   \<and> kp_sent (keyed_producer
        (KeyedProducer_send
           (SpiderLogStream_producer (example_cluster [0, 1] True) (spider_log example_bus))
           ''k'' [''m'']))
      = [ProducerRecord ''frontier-done'' (Some ''k'') ''m'']
   \<and> topic_partitions (example_cluster [0, 1] True) (sf_topic (spider_feed example_bus))
     = Some [0, 1]
   \<and> sf_partitions (spider_feed example_bus) = 4
   \<and> \<not> kp_closed (keyed_producer
          (SpiderFeedStream_producer (example_cluster [0, 1] True) (spider_feed example_bus)))
   \<and> kp_sent (keyed_producer
        (KeyedProducer_send
           (SpiderFeedStream_producer (example_cluster [0, 1] True) (spider_feed example_bus))
           ''k'' [''m'']))
      = [ProducerRecord ''frontier-todo'' (Some ''k'') ''m'']
   \<and> (\<exists>c. ScoringLogStream_consumer (example_cluster [0, 1] True) (scoring_log example_bus)
          = Inr c)"
proof -
  have l: "topic_partitions (example_cluster [0, 1] True) (sl_topic (spider_log example_bus))
     = Some [0, 1]
   \<and> sl_partitions (spider_log example_bus) = 4
   \<and> \<not> kp_closed (keyed_producer
          (SpiderLogStream_producer (example_cluster [0, 1] True) (spider_log example_bus)))
   \<and> kp_sent (keyed_producer
        (KeyedProducer_send
           (SpiderLogStream_producer (example_cluster [0, 1] True) (spider_log example_bus))
           ''k'' [''m'']))
      = [ProducerRecord ''frontier-done'' (Some ''k'') ''m'']"
    by (simp add: SpiderLogStream_producer_def KeyedProducer_init_def spider_log_def
        SpiderLogStream_init_def example_bus_def example_cluster_def producer_kwargs_def
        dict_pop_def KafkaProducer_new_def kafka_send_def Let_def)
  have f: "topic_partitions (example_cluster [0, 1] True) (sf_topic (spider_feed example_bus))
     = Some [0, 1]
   \<and> sf_partitions (spider_feed example_bus) = 4
   \<and> \<not> kp_closed (keyed_producer
          (SpiderFeedStream_producer (example_cluster [0, 1] True) (spider_feed example_bus)))
   \<and> kp_sent (keyed_producer
        (KeyedProducer_send
           (SpiderFeedStream_producer (example_cluster [0, 1] True) (spider_feed example_bus))
           ''k'' [''m'']))
      = [ProducerRecord ''frontier-todo'' (Some ''k'') ''m'']"
    by (simp add: SpiderFeedStream_producer_def KeyedProducer_init_def spider_feed_def
        SpiderFeedStream_init_def example_bus_def example_cluster_def producer_kwargs_def
        dict_pop_def KafkaProducer_new_def kafka_send_def Let_def)
  have c: "\<exists>c. ScoringLogStream_consumer (example_cluster [0, 1] True) (scoring_log example_bus)
          = Inr c"
    by (simp add: ScoringLogStream_consumer_def scoring_log_def ScoringLogStream_init_def
        example_bus_def Consumer_init_def Let_def partitions_for_topic_def
        KafkaConsumer_new_def example_cluster_def)
  from l f c show ?thesis by blast
qed

text \<open>
  C2, amended. The validation is made where a consumer of the spider log or of the
  spider feed is created: when the topic's actual partition count differs from the
  configured one, \<^verbatim>\<open>consumer()\<close> fails with an \<^verbatim>\<open>AssertionError\<close> and returns no
  consumer; a consumer that is returned was built on a topic whose partition count equals
  the configured one.
\<close>

theorem consumer_partition_count_check:
  "(topic_partitions cluster (sl_topic sl) = Some pids \<and> int (length pids) \<noteq> sl_partitions sl
      \<longrightarrow> SpiderLogStream_consumer cluster sl partition_id type = Inl (AssertionError []))
   \<and> (SpiderLogStream_consumer cluster sl partition_id type = Inr c
      \<longrightarrow> (\<exists>ps. topic_partitions cluster (sl_topic sl) = Some ps
                \<and> int (length ps) = sl_partitions sl))
   \<and> (topic_partitions cluster (sf_topic sf) = Some pids' \<and> int (length pids') \<noteq> sf_partitions sf
      \<longrightarrow> SpiderFeedStream_consumer cluster sf partition_id' =
            Inl (AssertionError
              ''Number of kafka topic partitions doesn't match value in config for spider feed''))
   \<and> (SpiderFeedStream_consumer cluster sf partition_id' = Inr c'
      \<longrightarrow> (\<exists>ps. topic_partitions cluster (sf_topic sf) = Some ps
                \<and> int (length ps) = sf_partitions sf))"
proof -
  have 1: "topic_partitions cluster (sl_topic sl) = Some pids \<Longrightarrow>
      int (length pids) \<noteq> sl_partitions sl \<Longrightarrow>
      SpiderLogStream_consumer cluster sl partition_id type = Inl (AssertionError [])"
    unfolding SpiderLogStream_consumer_def Let_def
    by (rule checked_consumer_mismatch)
  have 2: "SpiderLogStream_consumer cluster sl partition_id type = Inr c \<Longrightarrow>
      \<exists>ps. topic_partitions cluster (sl_topic sl) = Some ps \<and> int (length ps) = sl_partitions sl"
    unfolding SpiderLogStream_consumer_def Let_def
    by (rule checked_consumer_Inr)
  have 3: "topic_partitions cluster (sf_topic sf) = Some pids' \<Longrightarrow>
      int (length pids') \<noteq> sf_partitions sf \<Longrightarrow>
      SpiderFeedStream_consumer cluster sf partition_id' =
        Inl (AssertionError
          ''Number of kafka topic partitions doesn't match value in config for spider feed'')"
    unfolding SpiderFeedStream_consumer_def
    by (rule checked_consumer_mismatch)
  have 4: "SpiderFeedStream_consumer cluster sf partition_id' = Inr c' \<Longrightarrow>
      \<exists>ps. topic_partitions cluster (sf_topic sf) = Some ps \<and> int (length ps) = sf_partitions sf"
    unfolding SpiderFeedStream_consumer_def
    by (rule checked_consumer_Inr)
  from 1 2 3 4 show ?thesis by blast
qed

theorem consumer_partition_count_check_witness:
  "topic_partitions (example_cluster [0, 1] True) (sl_topic (spider_log example_bus))
     = Some [0, 1]
   \<and> int (length [0, 1 :: int]) \<noteq> sl_partitions (spider_log example_bus)
   \<and> SpiderLogStream_consumer (example_cluster [0, 1] True) (spider_log example_bus)
        (Some 0) (PyStr ''db'') = Inl (AssertionError [])
   \<and> topic_partitions (example_cluster [0, 1] True) (sf_topic (spider_feed example_bus))
     = Some [0, 1]
   \<and> int (length [0, 1 :: int]) \<noteq> sf_partitions (spider_feed example_bus)
   \<and> SpiderFeedStream_consumer (example_cluster [0, 1] True) (spider_feed example_bus) None
       = Inl (AssertionError
           ''Number of kafka topic partitions doesn't match value in config for spider feed'')
   \<and> (\<exists>c. SpiderLogStream_consumer (example_cluster [0, 1, 2, 3] True)
             (spider_log example_bus) (Some 0) (PyStr ''db'') = Inr c)
   \<and> (\<exists>ps. topic_partitions (example_cluster [0, 1, 2, 3] True)
              (sl_topic (spider_log example_bus)) = Some ps
           \<and> int (length ps) = sl_partitions (spider_log example_bus))
   \<and> (\<exists>c. SpiderFeedStream_consumer (example_cluster [0, 1, 2, 3] True)
             (spider_feed example_bus) None = Inr c)
   \<and> (\<exists>ps. topic_partitions (example_cluster [0, 1, 2, 3] True)
              (sf_topic (spider_feed example_bus)) = Some ps
           \<and> int (length ps) = sf_partitions (spider_feed example_bus))"
proof -
  let ?bad = "example_cluster [0, 1] True"
  let ?good = "example_cluster [0, 1, 2, 3] True"
  let ?sl = "spider_log example_bus"
  let ?sf = "spider_feed example_bus"
  have l1: "topic_partitions ?bad (sl_topic ?sl) = Some [0, 1]"
    and f1: "topic_partitions ?bad (sf_topic ?sf) = Some [0, 1]"
    by (simp_all add: example_cluster_def)
  have l2: "int (length [0, 1 :: int]) \<noteq> sl_partitions ?sl"
    by (simp add: spider_log_def SpiderLogStream_init_def example_bus_def)
  have f2: "int (length [0, 1 :: int]) \<noteq> sf_partitions ?sf"
    by (simp add: spider_feed_def SpiderFeedStream_init_def example_bus_def Let_def)
  obtain c1 where c1: "SpiderLogStream_consumer ?good ?sl (Some 0) (PyStr ''db'') = Inr c1"
    by (simp add: SpiderLogStream_consumer_def spider_log_def SpiderLogStream_init_def
        example_bus_def Consumer_init_def Let_def assert_partitions_def partitions_for_topic_def
        KafkaConsumer_new_def assign_def example_cluster_def)
  obtain c2 where c2: "SpiderFeedStream_consumer ?good ?sf None = Inr c2"
    by (simp add: SpiderFeedStream_consumer_def spider_feed_def SpiderFeedStream_init_def
        example_bus_def Consumer_init_def Let_def assert_partitions_def partitions_for_topic_def
        KafkaConsumer_new_def subscribe_def example_cluster_def)
  note bad = consumer_partition_count_check
    [of ?bad ?sl "[0, 1]" "Some 0" "PyStr ''db''" c1 ?sf "[0, 1]" None c2]
  note good = consumer_partition_count_check
    [of ?good ?sl "[0, 1]" "Some 0" "PyStr ''db''" c1 ?sf "[0, 1]" None c2]
  from bad l1 l2 have r1: "SpiderLogStream_consumer ?bad ?sl (Some 0) (PyStr ''db'')
      = Inl (AssertionError [])"
    by blast
  from bad f1 f2 have r2: "SpiderFeedStream_consumer ?bad ?sf None
      = Inl (AssertionError
           ''Number of kafka topic partitions doesn't match value in config for spider feed'')"
    by blast
  from good c1 have r3: "\<exists>ps. topic_partitions ?good (sl_topic ?sl) = Some ps
           \<and> int (length ps) = sl_partitions ?sl"
    by blast
  from good c2 have r4: "\<exists>ps. topic_partitions ?good (sf_topic ?sf) = Some ps
           \<and> int (length ps) = sf_partitions ?sf"
    by blast
  from l1 l2 r1 f1 f2 r2 c1 r3 c2 r4 show ?thesis by blast
qed

end
